theory Spec2Isabelle
  imports Complex_Main "HOL-Library.Multiset"
begin

section \<open>Python values\<close>

text \<open>
  The module \<^verbatim>\<open>recommendation_agent.py\<close> holds two tools, \<^verbatim>\<open>analyze_historical_patterns\<close>
  and \<^verbatim>\<open>get_best_practices\<close>, and the Lambda entry point \<^verbatim>\<open>lambda_handler\<close>.

  A Python \<^verbatim>\<open>str\<close> is a \<^typ>\<open>string\<close>; the texts of the module are ASCII. Python's
  \<^verbatim>\<open>int\<close> is \<^typ>\<open>int\<close> (or \<^typ>\<open>nat\<close> for a length or a tally).
\<close>

subsection \<open>Exceptions\<close>

text \<open>
  An exception is a value: the built-in exceptions the code of the module can raise by
  itself, and \<open>Raised\<close> for an exception that comes out of a collaborator (the agent,
  \<^verbatim>\<open>json.loads\<close>). Each carries what \<^verbatim>\<open>str(e)\<close> is built from.
\<close>

datatype exn =
    AttributeError string
  | KeyError string
  | TypeError string
  | OverflowError string
  | ZeroDivisionError string
  | Raised string

text \<open>\<^verbatim>\<open>str(e)\<close>; for a KeyError it is the key between quotes.\<close>

fun exn_str :: "exn \<Rightarrow> string" where
  "exn_str (AttributeError m) = m"
| "exn_str (KeyError k) = [CHR 0x27] @ k @ [CHR 0x27]"
| "exn_str (TypeError m) = m"
| "exn_str (OverflowError m) = m"
| "exn_str (ZeroDivisionError m) = m"
| "exn_str (Raised m) = m"

subsection \<open>Numbers\<close>

text \<open>
  A Python \<^verbatim>\<open>float\<close> is a finite value, an infinity or a NaN. The finite values are
  rationals: an operation gives its exact result, the rounding to the nearest double is
  not modelled, but the range is. A result whose magnitude reaches \<open>2^1024 - 2^970\<close>
  (the least magnitude that rounds to \<open>2^1024\<close>) is out of the range of a double: a
  float operation gives an infinity there, and a conversion or a division of integers
  raises OverflowError.
\<close>

datatype pyfloat = Finite rat | PosInf | NegInf | NaN

datatype number = PyInt int | PyFloat pyfloat

definition float_limit :: rat where
  "float_limit = 2 ^ 1024 - 2 ^ 970"

text \<open>The float of the exact result of a float operation.\<close>

definition to_float :: "rat \<Rightarrow> pyfloat" where
  "to_float r =
     (if float_limit \<le> r then PosInf else if r \<le> - float_limit then NegInf else Finite r)"

text \<open>\<^verbatim>\<open>float(i)\<close>, as an addition of an \<^verbatim>\<open>int\<close> and a \<^verbatim>\<open>float\<close> converts the integer.\<close>

definition int_to_float :: "int \<Rightarrow> exn + pyfloat" where
  "int_to_float i =
     (if float_limit \<le> \<bar>of_int i\<bar> then Inl (OverflowError ''int too large to convert to float'')
      else Inr (Finite (of_int i)))"

text \<open>\<^verbatim>\<open>x + y\<close> on floats.\<close>

fun float_add :: "pyfloat \<Rightarrow> pyfloat \<Rightarrow> pyfloat" where
  "float_add (Finite x) (Finite y) = to_float (x + y)"
| "float_add NaN y = NaN"
| "float_add x NaN = NaN"
| "float_add PosInf NegInf = NaN"
| "float_add NegInf PosInf = NaN"
| "float_add PosInf y = PosInf"
| "float_add x PosInf = PosInf"
| "float_add NegInf y = NegInf"
| "float_add x NegInf = NegInf"

text \<open>\<^verbatim>\<open>x + y\<close> on numbers: integers add exactly, an integer beside a float is converted.\<close>

fun py_add :: "number \<Rightarrow> number \<Rightarrow> exn + number" where
  "py_add (PyInt a) (PyInt b) = Inr (PyInt (a + b))"
| "py_add (PyInt a) (PyFloat y) =
     (case int_to_float a of Inl e \<Rightarrow> Inl e | Inr x \<Rightarrow> Inr (PyFloat (float_add x y)))"
| "py_add (PyFloat x) (PyInt b) =
     (case int_to_float b of Inl e \<Rightarrow> Inl e | Inr y \<Rightarrow> Inr (PyFloat (float_add x y)))"
| "py_add (PyFloat x) (PyFloat y) = Inr (PyFloat (float_add x y))"

text \<open>
  \<^verbatim>\<open>sum(xs, start)\<close>: the items are added to the start value from left to right, and
  the first exception ends the sum. \<^verbatim>\<open>sum(xs)\<close> starts from the integer 0.
\<close>

fun py_sum :: "number \<Rightarrow> number list \<Rightarrow> exn + number" where
  "py_sum start [] = Inr start"
| "py_sum start (x # xs) =
     (case py_add start x of Inl e \<Rightarrow> Inl e | Inr next \<Rightarrow> py_sum next xs)"

text \<open>
  \<^verbatim>\<open>x / n\<close> for a length \<open>n\<close>. Two integers give the quotient as a float, or OverflowError
  when it is out of range; a float is divided as a float.
\<close>

fun true_divide :: "number \<Rightarrow> nat \<Rightarrow> exn + pyfloat" where
  "true_divide (PyInt a) n =
     (if n = 0 then Inl (ZeroDivisionError ''division by zero'')
      else if float_limit \<le> \<bar>of_int a / of_nat n\<bar>
      then Inl (OverflowError ''integer division result too large for a float'')
      else Inr (Finite (of_int a / of_nat n)))"
| "true_divide (PyFloat x) n =
     (if n = 0 then Inl (ZeroDivisionError ''float division by zero'')
      else Inr (case x of Finite r \<Rightarrow> Finite (r / of_nat n) | _ \<Rightarrow> x))"

subsection \<open>Formatting a number\<close>

text \<open>\<^verbatim>\<open>str(n)\<close> of a non-negative integer, as an f-string renders \<^verbatim>\<open>{len(xs)}\<close>.\<close>

fun str_nat :: "nat \<Rightarrow> string" where
  "str_nat n =
     (if n < 10 then [''0123456789'' ! n]
      else str_nat (n div 10) @ [''0123456789'' ! (n mod 10)])"

declare str_nat.simps [simp del]

text \<open>\<^verbatim>\<open>str(i)\<close> of an integer.\<close>

definition str_int :: "int \<Rightarrow> string" where
  "str_int i = (if i < 0 then ''-'' @ str_nat (nat (- i)) else str_nat (nat i))"

subsection \<open>Lower case\<close>

text \<open>
  \<^verbatim>\<open>str.lower()\<close> on ASCII text: the letters A to Z (codes 65 to 90) move to a to z, every
  other character stays. (Python also maps the cased letters outside ASCII; the keys of
  the table below are ASCII.)
\<close>

definition lower_char :: "char \<Rightarrow> char" where
  "lower_char c =
     (let n = of_char c :: nat in if 65 \<le> n \<and> n \<le> 90 then char_of (n + 32) else c)"

definition lower :: "string \<Rightarrow> string" where
  "lower s = map lower_char s"

subsection \<open>Subscripting a dictionary\<close>

text \<open>\<^verbatim>\<open>d[k]\<close>: the value, or KeyError.\<close>

definition subscript :: "(string \<times> 'v) list \<Rightarrow> string \<Rightarrow> exn + 'v" where
  "subscript d k = (case map_of d k of None \<Rightarrow> Inl (KeyError k) | Some v \<Rightarrow> Inr v)"

section \<open>The pattern aggregator\<close>

subsection \<open>Records\<close>

text \<open>
  A historical alert is a dictionary; the aggregator reads three of its keys, each with
  \<^verbatim>\<open>.get\<close> and a default, so each field is optional: \<open>None\<close> is the absent key. The
  fields have the types of the data model (an event type is a string, the effective
  actions are a sequence of strings, a severity is a number, an integer or a float). The
  record is extensible: the other keys of an alert are its \<open>more\<close> part, which the
  aggregator never reads.
\<close>

record alert =
  eventType :: "string option"
  effectiveActions :: "string list option"
  severity :: "number option"

text \<open>The dictionaries appended to \<^verbatim>\<open>patterns\<close> (lines 71-76).\<close>

record pattern_summary =
  ps_eventType :: string
  ps_count :: nat
  averageSeverity :: pyfloat
  description :: string

text \<open>
  The dictionaries appended to \<^verbatim>\<open>effective_actions\<close> (lines 62-67). The confidence is the
  quotient of a tally and a length, then \<^verbatim>\<open>min\<close> with 0.95: both operands are counts of
  objects in memory, far below the range of a float, so the division neither overflows
  nor gives an infinity, and the value is a rational (its rounding is not modelled).
\<close>

record effective_action =
  ea_action :: string
  ea_eventType :: string
  frequency :: nat
  confidence :: rat

text \<open>The dictionary the tool returns (lines 33-36 and 78-81).\<close>

record analysis =
  patterns :: "pattern_summary list"
  effective_actions :: "effective_action list"

subsection \<open>Dictionaries in insertion order\<close>

text \<open>
  A Python \<^verbatim>\<open>dict\<close> iterates in the order its keys were first inserted, and both loops of
  the aggregator depend on that order, so a dictionary is an association list with each
  key once, a new key going to the end.

  Lines 42-44: \<^verbatim>\<open>if event_type not in alert_types: alert_types[event_type] = []\<close>, then
  \<^verbatim>\<open>alert_types[event_type].append(alert)\<close>.
\<close>

fun dict_append :: "string \<Rightarrow> 'v \<Rightarrow> (string \<times> 'v list) list \<Rightarrow> (string \<times> 'v list) list" where
  "dict_append k v [] = [(k, [v])]"
| "dict_append k v ((k', vs) # d) =
     (if k' = k then (k', vs @ [v]) # d else (k', vs) # dict_append k v d)"

text \<open>
  Lines 55-57: \<^verbatim>\<open>if action not in actions_count: actions_count[action] = 0\<close>, then
  \<^verbatim>\<open>actions_count[action] += 1\<close>.
\<close>

fun dict_increment :: "string \<Rightarrow> (string \<times> nat) list \<Rightarrow> (string \<times> nat) list" where
  "dict_increment k [] = [(k, 0 + 1)]"
| "dict_increment k ((k', c) # d) =
     (if k' = k then (k', c + 1) # d else (k', c) # dict_increment k d)"

subsection \<open>The tool\<close>

text \<open>Line 41: \<^verbatim>\<open>alert.get("eventType", "unknown")\<close>.\<close>

definition event_type_of :: "'a alert_scheme \<Rightarrow> string" where
  "event_type_of a = (case eventType a of None \<Rightarrow> ''unknown'' | Some t \<Rightarrow> t)"

text \<open>Line 54: \<^verbatim>\<open>alert.get("effectiveActions", [])\<close>.\<close>

definition actions_of :: "'a alert_scheme \<Rightarrow> string list" where
  "actions_of a = (case effectiveActions a of None \<Rightarrow> [] | Some acts \<Rightarrow> acts)"

text \<open>Line 74: \<^verbatim>\<open>a.get("severity", 0)\<close>.\<close>

definition severity_of :: "'a alert_scheme \<Rightarrow> number" where
  "severity_of a = (case severity a of None \<Rightarrow> PyInt 0 | Some s \<Rightarrow> s)"

text \<open>Lines 39-44: the loop that groups the alerts by type.\<close>

definition alert_types :: "'a alert_scheme list \<Rightarrow> (string \<times> 'a alert_scheme list) list" where
  "alert_types alerts = foldl (\<lambda>d a. dict_append (event_type_of a) a d) [] alerts"

text \<open>Lines 52-57: the two nested loops that tally the actions of one group.\<close>

definition actions_count :: "'a alert_scheme list \<Rightarrow> (string \<times> nat) list" where
  "actions_count type_alerts =
     foldl (\<lambda>d a. foldl (\<lambda>d' act. dict_increment act d') d (actions_of a)) [] type_alerts"

text \<open>
  \<^verbatim>\<open>sorted(xs, key=key, reverse=True)\<close>: CPython reverses the list, sorts it with its
  stable sort and reverses the result, so that elements with equal keys keep their
  order. \<^const>\<open>sort_key\<close> is a stable insertion sort.
\<close>

definition sorted_reverse :: "('a \<Rightarrow> 'k::linorder) \<Rightarrow> 'a list \<Rightarrow> 'a list" where
  "sorted_reverse key xs = rev (sort_key key (rev xs))"

text \<open>Line 60.\<close>

definition top_actions :: "'a alert_scheme list \<Rightarrow> (string \<times> nat) list" where
  "top_actions type_alerts = sorted_reverse snd (actions_count type_alerts)"

text \<open>
  Lines 61-67, one iteration. The divisor \<^verbatim>\<open>len(type_alerts)\<close> is never 0: a group is
  created by the append of its first alert (lemma \<open>alert_types_nonempty\<close> below), so
  line 66 does not raise ZeroDivisionError.
\<close>

definition action_entry :: "string \<Rightarrow> 'a alert_scheme list \<Rightarrow> string \<times> nat \<Rightarrow> effective_action" where
  "action_entry event_type type_alerts ac =
     \<lparr>ea_action = fst ac, ea_eventType = event_type, frequency = snd ac,
      confidence = min (of_nat (snd ac) / of_nat (length type_alerts)) (95 / 100)\<rparr>"

text \<open>
  Line 74: \<^verbatim>\<open>sum(a.get("severity", 0) for a in type_alerts) / len(type_alerts)\<close>. The sum
  and the division can raise.
\<close>

definition average_severity :: "'a alert_scheme list \<Rightarrow> exn + pyfloat" where
  "average_severity type_alerts =
     (case py_sum (PyInt 0) (map severity_of type_alerts) of
        Inl e \<Rightarrow> Inl e
      | Inr s \<Rightarrow> true_divide s (length type_alerts))"

text \<open>Lines 71-76: the dictionary of a pattern, or the exception of line 74.\<close>

definition pattern_entry :: "string \<Rightarrow> 'a alert_scheme list \<Rightarrow> exn + pattern_summary" where
  "pattern_entry event_type type_alerts =
     (case average_severity type_alerts of
        Inl e \<Rightarrow> Inl e
      | Inr average \<Rightarrow>
          Inr \<lparr>ps_eventType = event_type, ps_count = length type_alerts,
               averageSeverity = average,
               description = ''Pattern of '' @ event_type @ '' alerts identified with ''
                 @ str_nat (length type_alerts) @ '' occurrences''\<rparr>)"

text \<open>
  Lines 50-76: the body of the loop over \<^verbatim>\<open>alert_types.items()\<close>, on the two lists. The
  entries of the actions are appended first; an exception of line 74 then leaves the
  tool.
\<close>

definition process_type :: "analysis \<Rightarrow> string \<times> 'a alert_scheme list \<Rightarrow> exn + analysis" where
  "process_type acc item =
     (let event_type = fst item; type_alerts = snd item;
          effective' = effective_actions acc
            @ map (action_entry event_type type_alerts) (take 3 (top_actions type_alerts))
      in if length type_alerts \<ge> 3
         then (case pattern_entry event_type type_alerts of
                 Inl e \<Rightarrow> Inl e
               | Inr p \<Rightarrow> Inr \<lparr>patterns = patterns acc @ [p], effective_actions = effective'\<rparr>)
         else Inr \<lparr>patterns = patterns acc, effective_actions = effective'\<rparr>)"

text \<open>The loop of line 50: it ends at the first exception.\<close>

fun process_types :: "analysis \<Rightarrow> (string \<times> 'a alert_scheme list) list \<Rightarrow> exn + analysis" where
  "process_types acc [] = Inr acc"
| "process_types acc (item # items) =
     (case process_type acc item of Inl e \<Rightarrow> Inl e | Inr acc' \<Rightarrow> process_types acc' items)"

text \<open>
  Lines 32-81: the dictionary the tool returns, or the exception that leaves it. The
  argument is optional: \<^verbatim>\<open>not alerts\<close> holds for \<^verbatim>\<open>None\<close> and for the empty list.
\<close>

definition analyze_historical_patterns :: "'a alert_scheme list option \<Rightarrow> exn + analysis" where
  "analyze_historical_patterns alerts =
     (case alerts of
        None \<Rightarrow> Inr \<lparr>patterns = [], effective_actions = []\<rparr>
      | Some as \<Rightarrow>
          if as = [] \<or> length as = 0 then Inr \<lparr>patterns = [], effective_actions = []\<rparr>
          else process_types \<lparr>patterns = [], effective_actions = []\<rparr> (alert_types as))"

section \<open>The best-practices lookup\<close>

subsection \<open>The table\<close>

text \<open>
  Lines 97-171. The values of the dictionary \<^verbatim>\<open>best_practices\<close> are of two kinds: under an
  event type, a dictionary from sub-type to a list of strings; under the key
  \<^verbatim>\<open>"default"\<close>, a list of strings.
\<close>

datatype practices = SubTypes "(string \<times> string list) list" | Practices "string list"

definition hurricane_practices :: "string list" where
  "hurricane_practices =
     [''Evacuate if directed by local authorities'',
      ''Secure outdoor objects that could become projectiles'',
      ''Prepare emergency supplies including food, water, and medications'',
      ''Stay away from windows during the storm'',
      ''Monitor NOAA Weather Radio for updates'']"

definition tornado_practices :: "string list" where
  "tornado_practices =
     [''Move to an interior room on the lowest floor'',
      ''Stay away from windows'',
      ''Cover your head and neck'',
      ''Monitor local weather alerts'',
      ''Have emergency supplies ready'']"

definition flood_practices :: "string list" where
  "flood_practices =
     [''Move to higher ground immediately'',
      ''Do not walk, swim, or drive through flood waters'',
      ''Stay off bridges over fast-moving water'',
      ''Evacuate if told to do so'',
      ''Prepare emergency supplies'']"

definition weather_default_practices :: "string list" where
  "weather_default_practices =
     [''Stay informed through official weather channels'',
      ''Prepare emergency supplies'',
      ''Follow evacuation orders if issued'',
      ''Secure your property if time allows'',
      ''Have a communication plan with family members'']"

definition earthquake_practices :: "string list" where
  "earthquake_practices =
     [''Drop, cover, and hold on'',
      ''If indoors, stay away from windows and exterior walls'',
      ''If outdoors, move to an open area away from buildings and power lines'',
      ''Be prepared for aftershocks'',
      ''Check for injuries and damage after shaking stops'',
      ''Listen to emergency radio for instructions'']"

definition epidemic_practices :: "string list" where
  "epidemic_practices =
     [''Follow public health guidelines'',
      ''Practice good hygiene including frequent handwashing'',
      ''Maintain social distancing as recommended'',
      ''Wear appropriate protective equipment if advised'',
      ''Stay home if you develop symptoms'',
      ''Seek medical attention if symptoms worsen'']"

definition health_default_practices :: "string list" where
  "health_default_practices =
     [''Follow guidance from health authorities'',
      ''Maintain proper hygiene practices'',
      ''Stay informed through official health channels'',
      ''Prepare necessary medications and supplies'',
      ''Have emergency contacts readily available'']"

definition security_practices :: "string list" where
  "security_practices =
     [''Follow instructions from authorities'',
      ''Avoid the affected area'',
      ''Report suspicious activity to authorities'',
      ''Stay informed through official channels'',
      ''Have an emergency plan and supplies ready'']"

definition default_practices :: "string list" where
  "default_practices =
     [''Stay informed through official channels'',
      ''Follow instructions from authorities'',
      ''Have emergency supplies ready'',
      ''Develop and practice an emergency plan'',
      ''Help neighbors who may need assistance'']"

definition best_practices :: "(string \<times> practices) list" where
  "best_practices =
     [(''weather'', SubTypes
         [(''hurricane'', hurricane_practices), (''tornado'', tornado_practices),
          (''flood'', flood_practices), (''default'', weather_default_practices)]),
      (''earthquake'', SubTypes [(''default'', earthquake_practices)]),
      (''health'', SubTypes
         [(''epidemic'', epidemic_practices), (''default'', health_default_practices)]),
      (''security'', SubTypes [(''default'', security_practices)]),
      (''default'', Practices default_practices)]"

subsection \<open>The tool\<close>

text \<open>
  \<^verbatim>\<open>k in v\<close>: a key of a dictionary, an element of a list.
\<close>

definition contains :: "practices \<Rightarrow> string \<Rightarrow> bool" where
  "contains v k = (case v of SubTypes d \<Rightarrow> k \<in> set (map fst d) | Practices l \<Rightarrow> k \<in> set l)"

text \<open>
  \<^verbatim>\<open>v[k]\<close> with a string \<open>k\<close>: the entry of a dictionary (KeyError when it has none);
  TypeError on a list, whose indices are integers.
\<close>

definition practices_subscript :: "practices \<Rightarrow> string \<Rightarrow> exn + practices" where
  "practices_subscript v k =
     (case v of
        SubTypes d \<Rightarrow> map_sum id Practices (subscript d k)
      | Practices l \<Rightarrow> Inl (TypeError ''list indices must be integers or slices, not str''))"

text \<open>
  Line 176, \<^verbatim>\<open>sub_type and sub_type.lower() in type_practices\<close>: when the test holds, the
  key that line 177 reads. \<^verbatim>\<open>None\<close> and the empty string are false.
\<close>

definition matching_sub_type :: "string option \<Rightarrow> practices \<Rightarrow> string option" where
  "matching_sub_type sub_type type_practices =
     (case sub_type of
        None \<Rightarrow> None
      | Some s \<Rightarrow> if s \<noteq> [] \<and> contains type_practices (lower s) then Some (lower s) else None)"

text \<open>Lines 174-182.\<close>

definition get_best_practices :: "string \<Rightarrow> string option \<Rightarrow> exn + practices" where
  "get_best_practices event_type sub_type =
     (if lower event_type \<in> set (map fst best_practices) then
        (case subscript best_practices (lower event_type) of
           Inl e \<Rightarrow> Inl e
         | Inr type_practices \<Rightarrow>
             (case matching_sub_type sub_type type_practices of
                Some k \<Rightarrow> practices_subscript type_practices k
              | None \<Rightarrow>
                  if contains type_practices ''default''
                  then practices_subscript type_practices ''default''
                  else subscript best_practices ''default''))
      else subscript best_practices ''default'')"

section \<open>The handler\<close>

subsection \<open>JSON values\<close>

text \<open>
  The event of a Lambda invocation and the value \<^verbatim>\<open>json.loads\<close> returns are made of
  \<^verbatim>\<open>None\<close>, booleans, integers, floats, strings, lists and dictionaries with string keys.
  A dictionary is an association list whose keys are distinct, in insertion order. The
  handler computes with no float, it only passes them to \<^verbatim>\<open>json.dumps\<close> and to the
  f-string: a float here is the rational it stands for.
\<close>

datatype json =
    JNull
  | JBool bool
  | JInt int
  | JFloat rat
  | JStr string
  | JArr "json list"
  | JObj "(string \<times> json) list"

text \<open>\<^verbatim>\<open>type(v).__name__\<close>, as the message of an AttributeError names it.\<close>

fun type_name :: "json \<Rightarrow> string" where
  "type_name JNull = ''NoneType''"
| "type_name (JBool b) = ''bool''"
| "type_name (JInt i) = ''int''"
| "type_name (JFloat r) = ''float''"
| "type_name (JStr s) = ''str''"
| "type_name (JArr xs) = ''list''"
| "type_name (JObj kvs) = ''dict''"

text \<open>The truth value of \<^verbatim>\<open>not v\<close> and \<^verbatim>\<open>if v\<close>.\<close>

fun truthy :: "json \<Rightarrow> bool" where
  "truthy JNull = False"
| "truthy (JBool b) = b"
| "truthy (JInt i) = (i \<noteq> 0)"
| "truthy (JFloat r) = (r \<noteq> 0)"
| "truthy (JStr s) = (s \<noteq> [])"
| "truthy (JArr xs) = (xs \<noteq> [])"
| "truthy (JObj kvs) = (kvs \<noteq> [])"

text \<open>\<^verbatim>\<open>d.get(k, dflt)\<close> on a dictionary.\<close>

definition dict_get :: "(string \<times> json) list \<Rightarrow> string \<Rightarrow> json \<Rightarrow> json" where
  "dict_get kvs k dflt = (case map_of kvs k of None \<Rightarrow> dflt | Some v \<Rightarrow> v)"

text \<open>
  \<^verbatim>\<open>obj.get(k, dflt)\<close> on any value: only a dictionary has the method, every other value
  raises AttributeError.
\<close>

definition no_get :: "json \<Rightarrow> exn" where
  "no_get obj =
     AttributeError ([CHR 0x27] @ type_name obj @ [CHR 0x27] @ '' object has no attribute ''
       @ [CHR 0x27] @ ''get'' @ [CHR 0x27])"

definition py_get :: "json \<Rightarrow> string \<Rightarrow> json \<Rightarrow> exn + json" where
  "py_get obj k dflt = (case obj of JObj kvs \<Rightarrow> Inr (dict_get kvs k dflt) | _ \<Rightarrow> Inl (no_get obj))"

subsection \<open>The collaborators\<close>

text \<open>
  What the handler calls and the repository does not hold is a parameter of the model:
  \<^item> \<open>agent\<close>: the call \<^verbatim>\<open>agent(prompt)\<close> followed by \<^verbatim>\<open>response.message\<close>, the text of the
    reply, or the exception the call raises;
  \<^item> \<open>json_loads\<close>: \<^verbatim>\<open>json.loads\<close>, the parsed value or the exception it raises;
  \<^item> \<open>json_dumps\<close>: \<^verbatim>\<open>json.dumps\<close>, total on JSON values;
  \<^item> \<open>py_repr\<close>: the text an f-string gives a float, a list or a dictionary.
\<close>

record collaborators =
  agent :: "string \<Rightarrow> exn + string"
  json_loads :: "string \<Rightarrow> exn + json"
  json_dumps :: "json \<Rightarrow> string"
  py_repr :: "json \<Rightarrow> string"

text \<open>\<^verbatim>\<open>{v}\<close> in an f-string: a string as it is, \<^verbatim>\<open>None\<close>, a boolean and an integer by name.\<close>

definition py_str :: "collaborators \<Rightarrow> json \<Rightarrow> string" where
  "py_str lib v =
     (case v of
        JStr s \<Rightarrow> s
      | JNull \<Rightarrow> ''None''
      | JBool b \<Rightarrow> (if b then ''True'' else ''False'')
      | JInt i \<Rightarrow> str_int i
      | _ \<Rightarrow> py_repr lib v)"

subsection \<open>The prompt\<close>

definition join_lines :: "string list \<Rightarrow> string" where
  "join_lines ls = concat (map (\<lambda>l. l @ [CHR 0x0A]) ls)"

text \<open>
  Lines 249-277: the f-string, line by line (it starts with a line break and ends with
  the eight spaces before the closing quotes). \<open>get\<close> is \<^verbatim>\<open>current_alert.get\<close>.
\<close>

definition prompt_text :: "collaborators \<Rightarrow> (string \<Rightarrow> json \<Rightarrow> json) \<Rightarrow> string" where
  \<open>prompt_text lib get =
     join_lines
       ['''',
        ''        Generate recommendations for the following alert:'',
        ''        '',
        ''        ALERT DETAILS:'',
        ''        Type: '' @ py_str lib (get ''eventType'' JNull),
        ''        Sub-type: '' @ py_str lib (get ''subType'' (JStr ''N/A'')),
        ''        Severity: '' @ py_str lib (get ''severity'' (JStr ''Unknown'')),
        ''        Headline: '' @ py_str lib (get ''headline'' (JStr ''N/A'')),
        ''        Description: '' @ py_str lib (get ''description'' (JStr ''N/A'')),
        ''        Location: '' @ json_dumps lib (get ''location'' (JObj [])),
        ''        Affected Areas: '' @ json_dumps lib (get ''affectedAreas'' (JArr [])),
        ''        '',
        ''        Based on the alert details, historical data, and best practices:'',
        ''        1. Analyze historical patterns from similar alerts'',
        ''        2. Identify best practices for this type of event'',
        ''        3. Generate specific recommendations for this situation'',
        ''        '',
        ''        Format your response as a JSON object with the following structure:'',
        ''        {'',
        ''            "recommendations": {'',
        ''                "general": ["List of general recommendations"],'',
        ''                "specific": ["List of specific actions tailored to this alert"]'',
        ''            },'',
        ''            "priorityLevel": "high|medium|low",'',
        ''            "timeframe": "immediate|short-term|long-term",'',
        ''            "confidenceScore": 0.0-1.0,'',
        ''            "sources": ["List of sources or justifications"]'',
        ''        }'']
     @ ''        ''\<close>

text \<open>
  The prompt of a current alert. The alert is true here (line 240); a true value that
  is not a dictionary has no \<^verbatim>\<open>get\<close>, and the first call of the f-string raises.
\<close>

definition build_prompt :: "collaborators \<Rightarrow> json \<Rightarrow> exn + string" where
  "build_prompt lib current_alert =
     (case current_alert of
        JObj kvs \<Rightarrow> Inr (prompt_text lib (dict_get kvs))
      | _ \<Rightarrow> Inl (no_get current_alert))"

subsection \<open>The extraction of the reply\<close>

text \<open>\<^verbatim>\<open>s.find(c)\<close> and \<^verbatim>\<open>s.rfind(c)\<close>: the first and the last index of \<open>c\<close>, or -1.\<close>

definition py_find :: "string \<Rightarrow> char \<Rightarrow> int" where
  "py_find s c = (if c \<in> set s then int (length (takeWhile (\<lambda>x. x \<noteq> c) s)) else - 1)"

definition py_rfind :: "string \<Rightarrow> char \<Rightarrow> int" where
  "py_rfind s c =
     (if c \<in> set s then int (length s) - 1 - int (length (takeWhile (\<lambda>x. x \<noteq> c) (rev s)))
      else - 1)"

text \<open>\<^verbatim>\<open>s[i:j]\<close> for \<open>0 \<le> i\<close> and \<open>0 \<le> j\<close>, which the test of line 287 ensures.\<close>

definition py_slice :: "string \<Rightarrow> int \<Rightarrow> int \<Rightarrow> string" where
  "py_slice s i j = take (nat (j - i)) (drop (nat i) s)"

text \<open>Lines 292-302.\<close>

definition fallback_recommendations :: json where
  "fallback_recommendations =
     JObj [(''recommendations'',
            JObj [(''general'', JArr [JStr ''Stay informed through official channels'',
                                     JStr ''Follow instructions from authorities'']),
                  (''specific'', JArr [])]),
           (''priorityLevel'', JStr ''medium''),
           (''timeframe'', JStr ''immediate''),
           (''confidenceScore'', JFloat (5 / 10)),
           (''sources'', JArr [JStr ''System generated recommendations''])]"

text \<open>Lines 283-302.\<close>

definition extract_recommendations :: "collaborators \<Rightarrow> string \<Rightarrow> exn + json" where
  "extract_recommendations lib message_text =
     (let json_start = py_find message_text (CHR ''{'');
          json_end = py_rfind message_text (CHR ''}'') + 1
      in if json_start \<ge> 0 \<and> json_end > json_start
         then json_loads lib (py_slice message_text json_start json_end)
         else Inr fallback_recommendations)"

subsection \<open>The entry point\<close>

record response =
  statusCode :: int
  body :: string

text \<open>What a call of the handler does besides returning: the log lines and the agent call.\<close>

datatype effect = LogInfo string | LogError string | AgentCall string

text \<open>\<^verbatim>\<open>json.dumps({"error": msg})\<close>.\<close>

definition error_body :: "collaborators \<Rightarrow> string \<Rightarrow> string" where
  "error_body lib msg = json_dumps lib (JObj [(''error'', JStr msg)])"

text \<open>
  Lines 222-307, the body of the \<^verbatim>\<open>try\<close>: the response it returns or the exception that
  leaves it, with the effects so far.
\<close>

definition handler_try :: "collaborators \<Rightarrow> json \<Rightarrow> (exn + response) \<times> effect list" where
  "handler_try lib event =
     (let logged = [LogInfo (''Received event: '' @ json_dumps lib event)] in
      case py_get event ''action'' JNull of
        Inl e \<Rightarrow> (Inl e, logged)
      | Inr action \<Rightarrow>
          if action \<noteq> JStr ''generateRecommendations'' then
            (Inr \<lparr>statusCode = 400,
                  body = error_body lib (''Unsupported action: '' @ py_str lib action)\<rparr>, logged)
          else
            case py_get event ''context'' (JObj []) of
              Inl e \<Rightarrow> (Inl e, logged)
            | Inr context_data \<Rightarrow>
                case py_get context_data ''currentAlert'' (JObj []) of
                  Inl e \<Rightarrow> (Inl e, logged)
                | Inr current_alert \<Rightarrow>
                    case py_get context_data ''historicalAlerts'' (JArr []) of
                      Inl e \<Rightarrow> (Inl e, logged)
                    | Inr historical_alerts \<Rightarrow>
                        if \<not> truthy current_alert then
                          (Inr \<lparr>statusCode = 400,
                                body = error_body lib ''Current alert data is required''\<rparr>, logged)
                        else
                          case build_prompt lib current_alert of
                            Inl e \<Rightarrow> (Inl e, logged)
                          | Inr prompt \<Rightarrow>
                              case agent lib prompt of
                                Inl e \<Rightarrow> (Inl e, logged @ [AgentCall prompt])
                              | Inr message_text \<Rightarrow>
                                  case extract_recommendations lib message_text of
                                    Inl e \<Rightarrow> (Inl e, logged @ [AgentCall prompt])
                                  | Inr recommendations \<Rightarrow>
                                      (Inr \<lparr>statusCode = 200,
                                            body = json_dumps lib recommendations\<rparr>,
                                       logged @ [AgentCall prompt]))"

text \<open>Lines 221-316: the \<^verbatim>\<open>try\<close> and its \<^verbatim>\<open>except Exception\<close>.\<close>

definition lambda_handler :: "collaborators \<Rightarrow> json \<Rightarrow> response \<times> effect list" where
  "lambda_handler lib event =
     (case handler_try lib event of
        (Inr r, effects) \<Rightarrow> (r, effects)
      | (Inl e, effects) \<Rightarrow>
          (\<lparr>statusCode = 500,
            body = error_body lib (''Failed to generate recommendations: '' @ exn_str e)\<rparr>,
           effects @ [LogError (''Error generating recommendations: '' @ exn_str e)]))"

section \<open>The vocabulary of the properties\<close>

subsection \<open>Partitions and tallies\<close>

text \<open>The partition of an event type: the alerts of that type, in the order of the input.\<close>

definition partition_of :: "string \<Rightarrow> 'a alert_scheme list \<Rightarrow> 'a alert_scheme list" where
  "partition_of t alerts = filter (\<lambda>a. event_type_of a = t) alerts"

text \<open>
  Every action string the partition records, in the order the loops meet them; the
  tallied count of an action is the number of times it stands in this list.
\<close>

definition occurrences :: "string \<Rightarrow> 'a alert_scheme list \<Rightarrow> string list" where
  "occurrences t alerts = concat (map actions_of (partition_of t alerts))"


text \<open>The distinct values of a list, each at the place of its first occurrence.\<close>

definition first_occurrences :: "'a list \<Rightarrow> 'a list" where
  "first_occurrences xs = rev (remdups (rev xs))"


text \<open>The entries of a result that belong to one event type.\<close>

definition entries_for :: "string \<Rightarrow> analysis \<Rightarrow> effective_action list" where
  "entries_for t r = filter (\<lambda>e. ea_eventType e = t) (effective_actions r)"


text \<open>
  What a call of the aggregator emits is what the dictionary it returns holds: a call
  that raises returns no dictionary, and emits nothing.
\<close>

definition emitted_actions :: "exn + analysis \<Rightarrow> effective_action list" where
  "emitted_actions outcome = (case outcome of Inl e \<Rightarrow> [] | Inr r \<Rightarrow> effective_actions r)"


subsection \<open>The mean and the decimal numeral\<close>

text \<open>The value of a number that has one: an integer, or a finite float.\<close>

fun number_value :: "number \<Rightarrow> rat option" where
  "number_value (PyInt i) = Some (of_int i)"
| "number_value (PyFloat (Finite r)) = Some r"
| "number_value (PyFloat x) = None"




subsection \<open>The resolution order of the lookup, as the specification words it\<close>

text \<open>
  The nine entries of the table by the pair (event type, sub-type); the global default
  list is no such pair.
\<close>

definition spec_table :: "string \<Rightarrow> string \<Rightarrow> string list option" where
  "spec_table event_type sub_type =
     (if event_type = ''weather'' \<and> sub_type = ''hurricane'' then Some hurricane_practices
      else if event_type = ''weather'' \<and> sub_type = ''tornado'' then Some tornado_practices
      else if event_type = ''weather'' \<and> sub_type = ''flood'' then Some flood_practices
      else if event_type = ''weather'' \<and> sub_type = ''default'' then Some weather_default_practices
      else if event_type = ''earthquake'' \<and> sub_type = ''default'' then Some earthquake_practices
      else if event_type = ''health'' \<and> sub_type = ''epidemic'' then Some epidemic_practices
      else if event_type = ''health'' \<and> sub_type = ''default'' then Some health_default_practices
      else if event_type = ''security'' \<and> sub_type = ''default'' then Some security_practices
      else None)"

text \<open>
  Exact (event type, sub-type) match, else the (event type, "default") match, else the
  global default list; both keys compared in lower case.
\<close>

definition spec_resolution :: "string \<Rightarrow> string option \<Rightarrow> string list" where
  "spec_resolution event_type sub_type =
     (case (case sub_type of None \<Rightarrow> None | Some s \<Rightarrow> spec_table (lower event_type) (lower s)) of
        Some l \<Rightarrow> l
      | None \<Rightarrow>
          (case spec_table (lower event_type) ''default'' of
             Some l \<Rightarrow> l
           | None \<Rightarrow> default_practices))"

subsection \<open>The agent calls of a run\<close>

fun agent_calls :: "effect list \<Rightarrow> string list" where
  "agent_calls [] = []"
| "agent_calls (AgentCall p # es) = p # agent_calls es"
| "agent_calls (e # es) = agent_calls es"

section \<open>Examples\<close>

subsection \<open>Historical alerts\<close>

text \<open>
  Four alerts: three of type weather (one without a severity, one without actions) and
  one without an event type. In the weather partition two actions are met twice and two
  once, so the ranking has a tie at the top and a tie at the cut.
\<close>

definition example_alerts :: "alert list" where
  "example_alerts =
     [\<lparr>eventType = Some ''weather'',
       effectiveActions = Some [''Early evacuation of coastal areas'',
         ''Securing critical infrastructure'', ''Establishing emergency shelters'',
         ''Monitoring''],
       severity = Some (PyInt 7)\<rparr>,
      \<lparr>eventType = Some ''weather'',
       effectiveActions = Some [''Monitoring'', ''Securing critical infrastructure''],
       severity = None\<rparr>,
      \<lparr>eventType = None, effectiveActions = Some [''Monitoring''], severity = Some (PyInt 4)\<rparr>,
      \<lparr>eventType = Some ''weather'', effectiveActions = None, severity = Some (PyInt 8)\<rparr>]"

text \<open>The dictionary the aggregator returns for them.\<close>

definition example_result :: analysis where
  "example_result =
     \<lparr>patterns =
        [\<lparr>ps_eventType = ''weather'', ps_count = 3, averageSeverity = Finite 5,
          description = ''Pattern of weather alerts identified with 3 occurrences''\<rparr>],
      effective_actions =
        [\<lparr>ea_action = ''Securing critical infrastructure'', ea_eventType = ''weather'',
          frequency = 2, confidence = 2 / 3\<rparr>,
         \<lparr>ea_action = ''Monitoring'', ea_eventType = ''weather'',
          frequency = 2, confidence = 2 / 3\<rparr>,
         \<lparr>ea_action = ''Early evacuation of coastal areas'', ea_eventType = ''weather'',
          frequency = 1, confidence = 1 / 3\<rparr>,
         \<lparr>ea_action = ''Monitoring'', ea_eventType = ''unknown'',
          frequency = 1, confidence = 95 / 100\<rparr>]\<rparr>"




subsection \<open>A scripted double of the collaborators\<close>

text \<open>
  The handler calls the agent and \<^verbatim>\<open>json.loads\<close> at most once each, so a double is a
  script: the text the agent replies and the outcome of \<^verbatim>\<open>json.loads\<close>. Its
  \<^verbatim>\<open>json.dumps\<close> writes a value the way Python does for the values of the examples
  (strings that need no escape, floats with a short decimal expansion).
\<close>

definition join_with :: "string \<Rightarrow> string list \<Rightarrow> string" where
  "join_with sep xs = (case xs of [] \<Rightarrow> [] | x # rest \<Rightarrow> x @ concat (map (\<lambda>y. sep @ y) rest))"

fun frac_digits :: "nat \<Rightarrow> rat \<Rightarrow> string" where
  "frac_digits 0 r = []"
| "frac_digits (Suc n) r =
     (let d = nat \<lfloor>r * 10\<rfloor>
      in (''0123456789'' ! d) # (if r * 10 = of_nat d then [] else frac_digits n (r * 10 - of_nat d)))"

definition float_text :: "rat \<Rightarrow> string" where
  "float_text r =
     (if r < 0 then ''-'' else []) @ str_nat (nat \<lfloor>\<bar>r\<bar>\<rfloor>) @ ''.''
       @ frac_digits 17 (\<bar>r\<bar> - of_int \<lfloor>\<bar>r\<bar>\<rfloor>)"

fun render :: "json \<Rightarrow> string" where
  "render JNull = ''null''"
| "render (JBool b) = (if b then ''true'' else ''false'')"
| "render (JInt i) = str_int i"
| "render (JFloat r) = float_text r"
| "render (JStr s) = [CHR 0x22] @ s @ [CHR 0x22]"
| "render (JArr xs) = ''['' @ join_with '', '' (map render xs) @ '']''"
| "render (JObj kvs) =
     ''{'' @ join_with '', '' (map (\<lambda>kv. [CHR 0x22] @ fst kv @ [CHR 0x22] @ '': '' @ render (snd kv)) kvs)
       @ ''}''"

definition scripted :: "string \<Rightarrow> exn + json \<Rightarrow> collaborators" where
  "scripted reply parsed =
     \<lparr>agent = (\<lambda>prompt. Inr reply), json_loads = (\<lambda>s. parsed),
      json_dumps = render, py_repr = render\<rparr>"

subsection \<open>Events\<close>

text \<open>The current alert and the historical alert of the local test (lines 320-350).\<close>

definition test_alert :: json where
  "test_alert =
     JObj [(''eventType'', JStr ''weather''),
           (''subType'', JStr ''hurricane''),
           (''severity'', JInt 8),
           (''headline'', JStr ''Hurricane Warning for Coastal Areas''),
           (''description'',
              JStr ''Category 3 hurricane approaching with expected landfall in 24 hours.''),
           (''location'', JObj [(''lat'', JFloat (257617 / 10000)), (''lng'', JFloat (- 801918 / 10000))]),
           (''affectedAreas'',
              JArr [JObj [(''areaId'', JStr ''area-123''), (''areaName'', JStr ''Miami-Dade County''),
                          (''areaType'', JStr ''county'')]])]"

definition test_history :: json where
  "test_history =
     JArr [JObj [(''eventType'', JStr ''weather''),
                 (''subType'', JStr ''hurricane''),
                 (''severity'', JInt 7),
                 (''headline'', JStr ''Hurricane Warning''),
                 (''startTime'', JStr ''2024-05-15T10:00:00Z''),
                 (''effectiveActions'',
                    JArr [JStr ''Early evacuation of coastal areas'',
                          JStr ''Securing critical infrastructure'',
                          JStr ''Establishing emergency shelters'']),
                 (''outcomes'', JArr [JStr ''Minimal casualties'', JStr ''Significant property damage''])]]"

text \<open>The test event, as a function of the two values of its context.\<close>

definition event_with :: "(string \<times> json) list \<Rightarrow> (string \<times> json) list" where
  "event_with context_items =
     [(''action'', JStr ''generateRecommendations''), (''context'', JObj context_items)]"

definition test_event :: json where
  "test_event = JObj (event_with [(''currentAlert'', test_alert), (''historicalAlerts'', test_history)])"

section \<open>Properties of the pattern aggregator\<close>

text \<open>
  C8. For the empty sequence of alerts, and for a missing one, the aggregator returns
  the dictionary with no pattern and no effective action.
\<close>

theorem analyze_empty_input:
  "analyze_historical_patterns None = Inr \<lparr>patterns = [], effective_actions = []\<rparr>
   \<and> analyze_historical_patterns (Some []) = Inr \<lparr>patterns = [], effective_actions = []\<rparr>"
  by (simp add: analyze_historical_patterns_def)

subsection \<open>The two dictionaries in closed form\<close>

lemma first_occurrences_Nil [simp]: "first_occurrences [] = []"
  by (simp add: first_occurrences_def)

lemma first_occurrences_snoc:
  "first_occurrences (xs @ [x]) = (if x \<in> set xs then first_occurrences xs else first_occurrences xs @ [x])"
  by (simp add: first_occurrences_def)

lemma set_first_occurrences [simp]: "set (first_occurrences xs) = set xs"
  by (simp add: first_occurrences_def)

lemma distinct_first_occurrences [simp]: "distinct (first_occurrences xs)"
  by (simp add: first_occurrences_def)

lemma dict_append_tabulate:
  "distinct ks \<Longrightarrow>
   dict_append k v (map (\<lambda>k'. (k', g k')) ks) =
     (if k \<in> set ks then map (\<lambda>k'. (k', if k' = k then g k' @ [v] else g k')) ks
      else map (\<lambda>k'. (k', g k')) ks @ [(k, [v])])"
  by (induction ks) auto

lemma dict_increment_tabulate:
  "distinct ks \<Longrightarrow>
   dict_increment k (map (\<lambda>k'. (k', g k')) ks) =
     (if k \<in> set ks then map (\<lambda>k'. (k', if k' = k then g k' + 1 else g k')) ks
      else map (\<lambda>k'. (k', g k')) ks @ [(k, 1)])"
  by (induction ks) auto

lemma alert_types_snoc:
  "alert_types (as @ [a]) = dict_append (event_type_of a) a (alert_types as)"
  by (simp add: alert_types_def)

lemma alert_types_eq:
  "alert_types as =
     map (\<lambda>k. (k, filter (\<lambda>a. event_type_of a = k) as)) (first_occurrences (map event_type_of as))"
proof (induction as rule: rev_induct)
  case Nil
  show ?case by (simp add: alert_types_def)
next
  case (snoc a as)
  show ?case
    by (auto simp add: alert_types_snoc snoc.IH dict_append_tabulate first_occurrences_snoc filter_empty_conv image_iff)
qed

lemma foldl_increment_eq:
  "foldl (\<lambda>d act. dict_increment act d) [] xs =
     map (\<lambda>k. (k, count_list xs k)) (first_occurrences xs)"
proof (induction xs rule: rev_induct)
  case Nil
  show ?case by simp
next
  case (snoc x xs)
  show ?case
    by (auto simp add: snoc.IH dict_increment_tabulate first_occurrences_snoc)
qed

lemma foldl_nested_concat:
  "foldl (\<lambda>d xs. foldl f d xs) d xss = foldl f d (concat xss)"
  by (induction xss arbitrary: d) simp_all

lemma actions_count_eq:
  "actions_count ta =
     map (\<lambda>k. (k, count_list (concat (map actions_of ta)) k))
       (first_occurrences (concat (map actions_of ta)))"
proof -
  have "actions_count ta =
      foldl (\<lambda>d xs. foldl (\<lambda>d' act. dict_increment act d') d xs) [] (map actions_of ta)"
    by (simp add: actions_count_def foldl_map)
  then show ?thesis
    by (simp only: foldl_nested_concat foldl_increment_eq)
qed

subsection \<open>The ranking\<close>








lemma mset_sorted_reverse [simp]: "mset (sorted_reverse f xs) = mset xs"
  by (simp add: sorted_reverse_def)

lemma set_sorted_reverse [simp]: "set (sorted_reverse f xs) = set xs"
  by (simp add: sorted_reverse_def)

lemma length_sorted_reverse [simp]: "length (sorted_reverse f xs) = length xs"
  by (simp add: sorted_reverse_def)

lemma distinct_sorted_reverse [simp]: "distinct (sorted_reverse f xs) = distinct xs"
  by (simp add: sorted_reverse_def)


subsection \<open>The result by event type\<close>

text \<open>What one iteration appends to each list, when the loop goes through.\<close>

lemma process_types_Inr:
  assumes "process_types acc items = Inr r"
  shows "effective_actions r = effective_actions acc
      @ concat (map (\<lambda>i. map (action_entry (fst i) (snd i)) (take 3 (top_actions (snd i)))) items)"
    and "patterns r = patterns acc
      @ concat (map (\<lambda>i. if 3 \<le> length (snd i)
                           then (case pattern_entry (fst i) (snd i) of Inl e \<Rightarrow> [] | Inr p \<Rightarrow> [p])
                           else []) items)"
  using assms
  by (induction items arbitrary: acc)
    (auto simp: process_type_def Let_def split: sum.splits if_splits)

text \<open>The loop goes through exactly when line 74 raises for no group of three or more.\<close>

lemma process_types_returns:
  "(\<exists>r. process_types acc items = Inr r) \<longleftrightarrow>
     (\<forall>i \<in> set items. 3 \<le> length (snd i) \<longrightarrow> (\<exists>a. average_severity (snd i) = Inr a))"
proof (induction items arbitrary: acc)
  case Nil
  show ?case by simp
next
  case (Cons item items)
  show ?case
  proof (cases "process_type acc item")
    case (Inl e)
    then show ?thesis
      by (auto simp: process_type_def pattern_entry_def Let_def split: sum.splits if_splits)
  next
    case (Inr acc')
    then have "3 \<le> length (snd item) \<longrightarrow> (\<exists>a. average_severity (snd item) = Inr a)"
      by (auto simp: process_type_def pattern_entry_def Let_def split: sum.splits if_splits)
    with Inr Cons.IH [of acc'] show ?thesis
      by simp
  qed
qed

lemma filter_concat_keyed:
  assumes "distinct ks" and "\<And>k x. x \<in> set (g k) \<Longrightarrow> key x = k"
  shows "filter (\<lambda>x. key x = t) (concat (map g ks)) = (if t \<in> set ks then g t else [])"
  using assms(1)
proof (induction ks)
  case Nil
  show ?case by simp
next
  case (Cons k ks)
  have same: "filter (\<lambda>x. key x = k) (g k) = g k"
    by (rule filter_True) (simp add: assms(2))
  have other: "filter (\<lambda>x. key x = t) (g k) = []" if "t \<noteq> k"
    using that assms(2) by (auto simp: filter_empty_conv)
  show ?case
  proof (cases "t = k")
    case True
    with Cons show ?thesis by (simp add: same)
  next
    case False
    with Cons show ?thesis by (simp add: other)
  qed
qed

lemma partition_of_absent:
  "t \<notin> set (first_occurrences (map event_type_of as)) \<Longrightarrow> partition_of t as = []"
  by (auto simp: partition_of_def filter_empty_conv)

lemma top_actions_Nil [simp]: "top_actions [] = []"
  by (simp add: top_actions_def actions_count_def sorted_reverse_def)

lemma analyze_eq:
  "analyze_historical_patterns (Some as) =
     process_types \<lparr>patterns = [], effective_actions = []\<rparr> (alert_types as)"
  by (simp add: analyze_historical_patterns_def alert_types_def)

lemma alert_types_partitions:
  "alert_types as =
     map (\<lambda>k. (k, partition_of k as)) (first_occurrences (map event_type_of as))"
  by (simp add: alert_types_eq partition_of_def)

lemma entries_for_eq:
  assumes "analyze_historical_patterns (Some as) = Inr r"
  shows "entries_for t r =
     map (action_entry t (partition_of t as)) (take 3 (top_actions (partition_of t as)))"
proof -
  let ?ks = "first_occurrences (map event_type_of as)"
  let ?g = "\<lambda>k. map (action_entry k (partition_of k as)) (take 3 (top_actions (partition_of k as)))"
  have "entries_for t r = filter (\<lambda>e. ea_eventType e = t) (concat (map ?g ?ks))"
    using process_types_Inr(1) [OF assms [unfolded analyze_eq]]
    by (simp add: entries_for_def alert_types_partitions comp_def)
  also have "\<dots> = (if t \<in> set ?ks then ?g t else [])"
    by (rule filter_concat_keyed) (auto simp: action_entry_def)
  also have "\<dots> = ?g t"
    by (simp add: partition_of_absent)
  finally show ?thesis .
qed



text \<open>The tool returns exactly when line 74 raises for no partition of three or more.\<close>

lemma analyze_returns_iff:
  "(\<exists>r. analyze_historical_patterns (Some as) = Inr r) \<longleftrightarrow>
     (\<forall>t. 3 \<le> length (partition_of t as) \<longrightarrow> (\<exists>a. average_severity (partition_of t as) = Inr a))"
proof -
  have "(\<exists>r. analyze_historical_patterns (Some as) = Inr r) \<longleftrightarrow>
      (\<forall>t \<in> set (first_occurrences (map event_type_of as)).
          3 \<le> length (partition_of t as) \<longrightarrow> (\<exists>a. average_severity (partition_of t as) = Inr a))"
    by (simp add: analyze_eq process_types_returns alert_types_partitions)
  also have "\<dots> \<longleftrightarrow>
      (\<forall>t. 3 \<le> length (partition_of t as) \<longrightarrow> (\<exists>a. average_severity (partition_of t as) = Inr a))"
    using partition_of_absent [of _ as] by fastforce
  finally show ?thesis .
qed


lemma alert_types_nonempty: "(t, ta) \<in> set (alert_types as) \<Longrightarrow> ta \<noteq> []"
  by (auto simp: alert_types_eq filter_empty_conv)

lemma top_actions_eq:
  "top_actions (partition_of t as) =
     sorted_reverse snd (map (\<lambda>k. (k, count_list (occurrences t as) k))
       (first_occurrences (occurrences t as)))"
  by (simp add: top_actions_def actions_count_eq occurrences_def)

lemma top_actions_counts:
  "kc \<in> set (top_actions (partition_of t as)) \<Longrightarrow>
     fst kc \<in> set (occurrences t as) \<and> snd kc = count_list (occurrences t as) (fst kc)"
  by (auto simp: top_actions_eq)








subsection \<open>The example\<close>

lemma float_limit_small: "r \<le> 1000000 \<Longrightarrow> \<not> float_limit \<le> r"
  by (simp add: float_limit_def)

lemma example_analysis: "analyze_historical_patterns (Some example_alerts) = Inr example_result"
  by (simp add: analyze_historical_patterns_def example_alerts_def example_result_def
      alert_types_def event_type_of_def process_type_def top_actions_def actions_count_def
      actions_of_def sorted_reverse_def action_entry_def pattern_entry_def average_severity_def
      severity_of_def float_limit_small str_nat.simps Let_def)

lemma example_occurrences:
  "occurrences ''weather'' example_alerts =
     [''Early evacuation of coastal areas'', ''Securing critical infrastructure'',
      ''Establishing emergency shelters'', ''Monitoring'', ''Monitoring'',
      ''Securing critical infrastructure'']"
  by (simp add: occurrences_def partition_of_def example_alerts_def event_type_of_def
      actions_of_def)


text \<open>
  The confidence of an entry of the dictionary \<open>r\<close> the aggregator returns.
\<close>

lemma confidence_of_result:
  fixes alerts :: "'a alert_scheme list"
  assumes "analyze_historical_patterns (Some alerts) = Inr r"
  shows
  "\<forall>e \<in> set (effective_actions r).
     0 < length (partition_of (ea_eventType e) alerts)
     \<and> confidence e =
         min (of_nat (count_list (occurrences (ea_eventType e) alerts) (ea_action e))
                / of_nat (length (partition_of (ea_eventType e) alerts)))
             (95 / 100)
     \<and> confidence e \<le> 95 / 100"
proof
  fix e
  assume "e \<in> set (effective_actions r)"
  then have "e \<in> set (entries_for (ea_eventType e) r)"
    by (simp add: entries_for_def)
  then obtain kc where kc: "kc \<in> set (top_actions (partition_of (ea_eventType e) alerts))"
    and e: "e = action_entry (ea_eventType e) (partition_of (ea_eventType e) alerts) kc"
    unfolding entries_for_eq [OF assms] by (auto dest: in_set_takeD)
  from kc have cnt: "snd kc = count_list (occurrences (ea_eventType e) alerts) (fst kc)"
    and "fst kc \<in> set (occurrences (ea_eventType e) alerts)"
    by (simp_all add: top_actions_counts)
  then have "partition_of (ea_eventType e) alerts \<noteq> []"
    by (auto simp: occurrences_def)
  moreover have "ea_action e = fst kc" "confidence e =
      min (of_nat (snd kc) / of_nat (length (partition_of (ea_eventType e) alerts))) (95 / 100)"
    by (subst e, simp add: action_entry_def)+
  ultimately have size: "0 < length (partition_of (ea_eventType e) alerts)"
    and conf: "confidence e =
         min (of_nat (count_list (occurrences (ea_eventType e) alerts) (ea_action e))
                / of_nat (length (partition_of (ea_eventType e) alerts)))
             (95 / 100)"
    using cnt by simp_all
  have "confidence e \<le> 95 / 100"
    by (subst conf) (rule min.cobounded2)
  with size conf show "0 < length (partition_of (ea_eventType e) alerts)
     \<and> confidence e =
         min (of_nat (count_list (occurrences (ea_eventType e) alerts) (ea_action e))
                / of_nat (length (partition_of (ea_eventType e) alerts)))
             (95 / 100)
     \<and> confidence e \<le> 95 / 100"
    by blast
qed

text \<open>
  C5. Every entry a call emits has the confidence min(count / partition size, 0.95), for
  the tallied count of its action and the size of the partition of its event type, which
  is not empty; so no confidence exceeds 0.95.
\<close>

theorem confidence_capped:
  fixes alerts :: "'a alert_scheme list"
  shows
  "\<forall>e \<in> set (emitted_actions (analyze_historical_patterns (Some alerts))).
     0 < length (partition_of (ea_eventType e) alerts)
     \<and> confidence e =
         min (of_nat (count_list (occurrences (ea_eventType e) alerts) (ea_action e))
                / of_nat (length (partition_of (ea_eventType e) alerts)))
             (95 / 100)
     \<and> confidence e \<le> 95 / 100"
proof (cases "analyze_historical_patterns (Some alerts)")
  case (Inl e)
  then show ?thesis
    by (simp add: emitted_actions_def)
next
  case (Inr r)
  have emitted: "emitted_actions (analyze_historical_patterns (Some alerts)) = effective_actions r"
    by (simp add: Inr emitted_actions_def)
  show ?thesis
    unfolding emitted by (rule confidence_of_result [OF Inr])
qed

text \<open>On the example: 2 of 3 gives 2/3, and 1 of 1 is capped at 0.95.\<close>

theorem confidence_capped_witness:
  "analyze_historical_patterns (Some example_alerts) = Inr example_result
   \<and> confidence (emitted_actions (analyze_historical_patterns (Some example_alerts)) ! 0)
     = min (2 / 3) (95 / 100)
   \<and> confidence (emitted_actions (analyze_historical_patterns (Some example_alerts)) ! 3)
     = min (1 / 1) (95 / 100)
   \<and> confidence (emitted_actions (analyze_historical_patterns (Some example_alerts)) ! 3)
     \<le> 95 / 100"
proof -
  have u: "occurrences ''unknown'' example_alerts = [''Monitoring'']"
    "partition_of ''unknown'' example_alerts = [example_alerts ! 2]"
    and w: "length (partition_of ''weather'' example_alerts) = 3"
    by (simp_all add: occurrences_def partition_of_def example_alerts_def event_type_of_def
        actions_of_def)
  have em: "emitted_actions (analyze_historical_patterns (Some example_alerts))
      = effective_actions example_result"
    by (simp add: example_analysis emitted_actions_def)
  show ?thesis
    using confidence_capped [of example_alerts]
    unfolding em example_result_def
    by (simp add: u w example_occurrences example_analysis [unfolded example_result_def])
qed

subsection \<open>The decimal numeral of a count\<close>









subsection \<open>The sum and the average of line 74\<close>


text \<open>A sum of integers is the integer sum: it never raises.\<close>

lemma py_sum_integers:
  assumes "\<forall>x \<in> set xs. \<exists>i. x = PyInt i"
  shows "\<exists>b. py_sum (PyInt a) xs = Inr (PyInt b)
     \<and> (of_int b :: rat) = of_int a + (\<Sum>x\<leftarrow>xs. case number_value x of None \<Rightarrow> 0 | Some r \<Rightarrow> r)"
  using assms
proof (induction xs arbitrary: a)
  case Nil
  show ?case by simp
next
  case (Cons x xs)
  then obtain i where x: "x = PyInt i"
    by auto
  from Cons.prems have "\<forall>x \<in> set xs. \<exists>i. x = PyInt i"
    by simp
  from Cons.IH [OF this, of "a + i"] show ?case
    by (auto simp: x)
qed





text \<open>
  Integer severities each within the range of a float: the mean is within it too, the
  division does not raise, and the tool returns.
\<close>

lemma sum_list_strict_bound:
  fixes f :: "'b \<Rightarrow> rat"
  assumes "xs \<noteq> []" and "\<forall>x \<in> set xs. \<bar>f x\<bar> < L"
  shows "\<bar>sum_list (map f xs)\<bar> < of_nat (length xs) * L"
  using assms
proof (induction xs rule: list_nonempty_induct)
  case (single x)
  then show ?case by simp
next
  case (cons x xs)
  then have "\<bar>f x\<bar> < L" and "\<bar>sum_list (map f xs)\<bar> < of_nat (length xs) * L"
    by simp_all
  then show ?case
    by (simp add: algebra_simps)
qed

lemma average_of_small_integers:
  assumes "records \<noteq> []"
    and "\<forall>a \<in> set records. \<exists>i. severity_of a = PyInt i \<and> \<bar>of_int i\<bar> < float_limit"
  shows "\<exists>average. average_severity records = Inr average"
proof -
  let ?num = "\<lambda>a. case number_value (severity_of a) of None \<Rightarrow> (0 :: rat) | Some r \<Rightarrow> r"
  from assms(2) have "\<forall>x \<in> set (map severity_of records). \<exists>i. x = PyInt i"
    by auto
  from py_sum_integers [OF this, of 0] obtain b
    where s: "py_sum (PyInt 0) (map severity_of records) = Inr (PyInt b)"
      and b: "(of_int b :: rat) = (\<Sum>a\<leftarrow>records. ?num a)"
    by (auto simp: comp_def)
  from assms(2) have "\<forall>a \<in> set records. \<bar>?num a\<bar> < float_limit"
    by auto
  from sum_list_strict_bound [OF assms(1) this]
  have "\<bar>of_int b :: rat\<bar> < of_nat (length records) * float_limit"
    by (simp add: b)
  moreover from assms(1) have n: "0 < (of_nat (length records) :: rat)"
    by simp
  ultimately have "\<bar>of_int b / of_nat (length records) :: rat\<bar> < float_limit"
    by (simp add: pos_divide_less_eq mult.commute)
  with assms(1) s show ?thesis
    by (simp add: average_severity_def)
qed

lemma analyze_returns_on_small_integers:
  assumes "\<forall>a \<in> set alerts. \<exists>i. severity_of a = PyInt i \<and> \<bar>of_int i\<bar> < float_limit"
  shows "\<exists>r. analyze_historical_patterns (Some alerts) = Inr r"
  unfolding analyze_returns_iff
proof (intro allI impI)
  fix t
  assume "3 \<le> length (partition_of t alerts)"
  then have "partition_of t alerts \<noteq> []"
    by auto
  then show "\<exists>a. average_severity (partition_of t alerts) = Inr a"
    by (rule average_of_small_integers) (use assms in \<open>auto simp: partition_of_def\<close>)
qed

subsection \<open>The pattern summaries\<close>







text \<open>
  Three alerts of float severity \<open>10^308\<close>: the float sum leaves the range at the second
  addition, and the value of line 74 is the infinity, not the mean \<open>10^308\<close>.
\<close>

lemma large_float_severity_is_infinite:
  "average_severity
     (replicate 3 \<lparr>eventType = Some ''weather'', effectiveActions = None,
                    severity = Some (PyFloat (Finite (10 ^ 308)))\<rparr>)
     = Inr PosInf"
  by (simp add: average_severity_def severity_of_def int_to_float_def to_float_def
      float_limit_def numeral_3_eq_3)

section \<open>Properties of the best-practices lookup\<close>

subsection \<open>Lower case never yields a capital\<close>

lemma lower_Nil [simp]: "lower [] = []"
  by (simp add: lower_def)

lemma of_char_lower_char:
  "\<not> (65 \<le> (of_char (lower_char c) :: nat) \<and> (of_char (lower_char c) :: nat) \<le> 90)"
  by (auto simp: lower_char_def Let_def)

lemma lower_not_capital:
  assumes "65 \<le> (of_char c :: nat)" and "(of_char c :: nat) \<le> 90"
  shows "lower s \<noteq> c # cs"
proof
  assume "lower s = c # cs"
  then obtain d where "lower_char d = c"
    by (auto simp: lower_def)
  with of_char_lower_char [of d] assms show False by simp
qed

text \<open>Each string of the global default list starts with a capital.\<close>

lemma lower_not_default_practice: "lower s \<notin> set default_practices"
  by (simp add: default_practices_def lower_not_capital)

lemma default_not_practice: "''default'' \<notin> set default_practices"
  by (simp add: default_practices_def)

subsection \<open>The resolution order\<close>

lemma best_practices_keys:
  "k \<in> set (map fst best_practices) \<longleftrightarrow>
     k = ''weather'' \<or> k = ''earthquake'' \<or> k = ''health'' \<or> k = ''security'' \<or> k = ''default''"
  by (auto simp: best_practices_def)

lemma get_best_practices_resolution:
  "get_best_practices event_type sub_type = Inr (Practices (spec_resolution event_type sub_type))"
proof -
  consider "lower event_type = ''weather''" | "lower event_type = ''earthquake''"
    | "lower event_type = ''health''" | "lower event_type = ''security''"
    | "lower event_type = ''default''" | "lower event_type \<notin> set (map fst best_practices)"
    using best_practices_keys by blast
  then show ?thesis
  proof cases
    case 5
    then show ?thesis
      by (simp add: get_best_practices_def best_practices_def subscript_def matching_sub_type_def
          contains_def practices_subscript_def spec_resolution_def spec_table_def
          lower_not_default_practice default_not_practice split: option.split)
  next
    case 6
    then have "spec_table (lower event_type) st = None" for st
      using best_practices_keys [of "lower event_type"] by (auto simp: spec_table_def)
    with 6 show ?thesis
      by (simp add: get_best_practices_def subscript_def spec_resolution_def best_practices_def
          split: option.split)
  qed (auto simp add: get_best_practices_def best_practices_def subscript_def
        matching_sub_type_def contains_def practices_subscript_def spec_resolution_def
        spec_table_def split: option.split)
qed

lemma spec_resolution_nonempty: "spec_resolution event_type sub_type \<noteq> []"
  by (auto simp: spec_resolution_def spec_table_def hurricane_practices_def
      tornado_practices_def flood_practices_def weather_default_practices_def
      earthquake_practices_def epidemic_practices_def health_default_practices_def
      security_practices_def default_practices_def split: option.split)

lemma lower_examples:
  "lower ''weather'' = ''weather''" "lower ''hurricane'' = ''hurricane''"
  "lower ''blizzard'' = ''blizzard''" "lower ''unknownType'' = ''unknowntype''"
  "lower ''WEATHER'' = ''weather''" "lower ''Hurricane'' = ''hurricane''"
  "lower ''DEFAULT'' = ''default''"
  by code_simp+

text \<open>
  C6. The lookup never fails and returns a non-empty list, the one the resolution order
  names: the entry of (event type, sub-type) when the table has it, else the entry of
  (event type, "default") when the table has it, else the global default list, both
  keys compared in lower case. So ("weather", "hurricane") gives the five items of the
  hurricane list, ("weather", "blizzard") the weather default list, ("unknownType", no
  sub-type) the global default list, and ("WEATHER", "Hurricane") the same list as
  ("weather", "hurricane").
\<close>

theorem best_practices_resolution_order:
  "get_best_practices event_type sub_type = Inr (Practices (spec_resolution event_type sub_type))
   \<and> spec_resolution event_type sub_type \<noteq> []
   \<and> get_best_practices ''weather'' (Some ''hurricane'') = Inr (Practices hurricane_practices)
   \<and> length hurricane_practices = 5
   \<and> get_best_practices ''weather'' (Some ''blizzard'') = Inr (Practices weather_default_practices)
   \<and> get_best_practices ''unknownType'' None = Inr (Practices default_practices)
   \<and> get_best_practices ''WEATHER'' (Some ''Hurricane'')
       = get_best_practices ''weather'' (Some ''hurricane'')"
  by (simp add: get_best_practices_resolution spec_resolution_nonempty)
    (simp add: spec_resolution_def spec_table_def lower_examples hurricane_practices_def)

text \<open>
  C10. When the event type is "default" in lower case, the entry the lookup selects is
  the global default list itself, a list and not a dictionary of sub-types; no lower-case
  sub-type is an element of that list and neither is "default", so for every sub-type
  the lookup returns the global default list and raises nothing.
\<close>

theorem default_event_type_is_safe:
  assumes "lower event_type = ''default''"
  shows "subscript best_practices (lower event_type) = Inr (Practices default_practices)
         \<and> matching_sub_type sub_type (Practices default_practices) = None
         \<and> \<not> contains (Practices default_practices) ''default''
         \<and> get_best_practices event_type sub_type = Inr (Practices default_practices)"
  using assms
  by (simp add: get_best_practices_def best_practices_def subscript_def matching_sub_type_def
      contains_def lower_not_default_practice default_not_practice split: option.split)

theorem default_event_type_is_safe_witness:
  "lower ''DEFAULT'' = ''default''
   \<and> get_best_practices ''DEFAULT'' (Some ''Hurricane'') = Inr (Practices default_practices)
   \<and> get_best_practices ''DEFAULT'' None = Inr (Practices default_practices)"
  using default_event_type_is_safe [of "''DEFAULT''" "Some ''Hurricane''"]
    default_event_type_is_safe [of "''DEFAULT''" None]
  by (simp add: lower_examples)

section \<open>Properties of the handler\<close>

subsection \<open>The three ways through the handler\<close>

text \<open>An event is a dictionary \<open>JObj ev\<close>. Lines 225-232: the action is not the one supported.\<close>

lemma handler_unsupported_action:
  assumes "map_of ev ''action'' \<noteq> Some (JStr ''generateRecommendations'')"
  shows "lambda_handler lib (JObj ev) =
     (\<lparr>statusCode = 400,
       body = error_body lib (''Unsupported action: '' @ py_str lib (dict_get ev ''action'' JNull))\<rparr>,
      [LogInfo (''Received event: '' @ json_dumps lib (JObj ev))])"
  using assms
  by (auto simp: lambda_handler_def handler_try_def py_get_def dict_get_def Let_def
      split: option.splits)

text \<open>Lines 234-246: the current alert is false.\<close>

lemma handler_falsy_alert:
  assumes "map_of ev ''action'' = Some (JStr ''generateRecommendations'')"
    and "py_get (dict_get ev ''context'' (JObj [])) ''currentAlert'' (JObj []) = Inr v"
    and "\<not> truthy v"
  shows "lambda_handler lib (JObj ev) =
     (\<lparr>statusCode = 400, body = error_body lib ''Current alert data is required''\<rparr>,
      [LogInfo (''Received event: '' @ json_dumps lib (JObj ev))])"
  using assms
  by (auto simp: lambda_handler_def handler_try_def py_get_def dict_get_def Let_def
      split: option.splits json.splits)

text \<open>
  Line 236 on a context that is not a dictionary (\<^verbatim>\<open>null\<close>, a string, a list): it has no
  \<^verbatim>\<open>get\<close>, and the handler answers 500.
\<close>

lemma handler_context_not_dictionary:
  assumes "map_of ev ''action'' = Some (JStr ''generateRecommendations'')"
    and "map_of ev ''context'' = Some v"
    and "\<forall>c. v \<noteq> JObj c"
  shows "fst (lambda_handler lib (JObj ev)) =
     \<lparr>statusCode = 500,
      body = error_body lib (''Failed to generate recommendations: '' @ exn_str (no_get v))\<rparr>"
  using assms
  by (cases v)
    (simp_all add: lambda_handler_def handler_try_def py_get_def dict_get_def Let_def)

text \<open>Lines 248-307: the current alert is a dictionary with a key; the agent is called.\<close>

lemma handler_reaches_agent:
  assumes "map_of ev ''action'' = Some (JStr ''generateRecommendations'')"
    and "py_get (dict_get ev ''context'' (JObj [])) ''currentAlert'' (JObj []) = Inr (JObj a)"
    and "a \<noteq> []"
  shows "lambda_handler lib (JObj ev) =
     (let prompt = prompt_text lib (dict_get a);
          effects = [LogInfo (''Received event: '' @ json_dumps lib (JObj ev)), AgentCall prompt];
          failed = (\<lambda>e. (\<lparr>statusCode = 500,
                body = error_body lib (''Failed to generate recommendations: '' @ exn_str e)\<rparr>,
              effects @ [LogError (''Error generating recommendations: '' @ exn_str e)]))
      in case agent lib prompt of
           Inl e \<Rightarrow> failed e
         | Inr message_text \<Rightarrow>
             (case extract_recommendations lib message_text of
                Inl e \<Rightarrow> failed e
              | Inr r \<Rightarrow> (\<lparr>statusCode = 200, body = json_dumps lib r\<rparr>, effects)))"
  using assms
  by (auto simp: lambda_handler_def handler_try_def py_get_def dict_get_def Let_def
      build_prompt_def split: option.splits json.splits sum.splits)

subsection \<open>The extraction\<close>

lemma extract_without_opening_brace:
  "CHR ''{'' \<notin> set reply \<Longrightarrow> extract_recommendations lib reply = Inr fallback_recommendations"
  by (simp add: extract_recommendations_def py_find_def Let_def)

lemma extract_without_closing_brace:
  "CHR ''}'' \<notin> set reply \<Longrightarrow> extract_recommendations lib reply = Inr fallback_recommendations"
  by (simp add: extract_recommendations_def py_find_def py_rfind_def Let_def)

lemma extract_with_braces:
  assumes "0 \<le> py_find reply (CHR ''{'')"
    and "py_find reply (CHR ''{'') \<le> py_rfind reply (CHR ''}'')"
  shows "extract_recommendations lib reply =
     json_loads lib (py_slice reply (py_find reply (CHR ''{'')) (py_rfind reply (CHR ''}'') + 1))"
  using assms by (simp add: extract_recommendations_def Let_def)

text \<open>A reply that lacks one of the two braces gives the fallback, with status 200.\<close>

lemma handler_reply_without_braces:
  assumes "map_of ev ''action'' = Some (JStr ''generateRecommendations'')"
    and "py_get (dict_get ev ''context'' (JObj [])) ''currentAlert'' (JObj []) = Inr (JObj a)"
    and "a \<noteq> []"
    and "agent lib (prompt_text lib (dict_get a)) = Inr reply"
    and "CHR ''{'' \<notin> set reply \<or> CHR ''}'' \<notin> set reply"
  shows "fst (lambda_handler lib (JObj ev)) =
     \<lparr>statusCode = 200, body = json_dumps lib fallback_recommendations\<rparr>"
  using assms(4,5)
  by (auto simp: handler_reaches_agent [OF assms(1-3)] Let_def extract_without_opening_brace
      extract_without_closing_brace)

text \<open>
  A reply whose first opening brace stands before its last closing brace goes to
  \<^verbatim>\<open>json.loads\<close>; the exception of \<^verbatim>\<open>json.loads\<close> leaves the \<^verbatim>\<open>try\<close> and the handler
  answers 500.
\<close>

lemma handler_unparseable_reply:
  assumes "map_of ev ''action'' = Some (JStr ''generateRecommendations'')"
    and "py_get (dict_get ev ''context'' (JObj [])) ''currentAlert'' (JObj []) = Inr (JObj a)"
    and "a \<noteq> []"
    and "agent lib (prompt_text lib (dict_get a)) = Inr reply"
    and "0 \<le> py_find reply (CHR ''{'')"
    and "py_find reply (CHR ''{'') \<le> py_rfind reply (CHR ''}'')"
    and "json_loads lib (py_slice reply (py_find reply (CHR ''{'')) (py_rfind reply (CHR ''}'') + 1))
           = Inl e"
  shows "fst (lambda_handler lib (JObj ev)) =
     \<lparr>statusCode = 500,
      body = error_body lib (''Failed to generate recommendations: '' @ exn_str e)\<rparr>"
  using assms(4,7)
  by (simp add: handler_reaches_agent [OF assms(1-3)] Let_def extract_with_braces [OF assms(5,6)])

lemma test_event_reaches_agent:
  "map_of (event_with [(''currentAlert'', test_alert), (''historicalAlerts'', h)]) ''action''
     = Some (JStr ''generateRecommendations'')"
  "py_get (dict_get (event_with [(''currentAlert'', test_alert), (''historicalAlerts'', h)])
       ''context'' (JObj [])) ''currentAlert'' (JObj [])
     = Inr test_alert"
  by (simp_all add: event_with_def py_get_def dict_get_def)

text \<open>
  C1. A reply with no braces, and a reply whose text between the first opening and the
  last closing brace is not parseable JSON, are both to give status 200 with the fixed
  fallback recommendation. For a reply without braces that is the lemma above. For a
  reply that does not parse it fails: with the test event and the reply \<^verbatim>\<open>{not json}\<close>
  the braces are found at 0 and 9, the slice is the whole reply, \<^verbatim>\<open>json.loads\<close> raises,
  and the handler returns status 500 with the message of the exception, not the
  fallback.
\<close>

theorem unparseable_reply_is_server_error:
  "fst (lambda_handler
         (scripted ''{not json}''
            (Inl (Raised
              ''Expecting property name enclosed in double quotes: line 1 column 2 (char 1)'')))
         test_event)
     = \<lparr>statusCode = 500,
        body = render (JObj [(''error'', JStr
          ''Failed to generate recommendations: Expecting property name enclosed in double quotes: line 1 column 2 (char 1)'')])\<rparr>
   \<and> py_find ''{not json}'' (CHR ''{'') = 0
   \<and> py_rfind ''{not json}'' (CHR ''}'') + 1 = 10
   \<and> py_slice ''{not json}'' 0 10 = ''{not json}''"
proof -
  have braces: "py_find ''{not json}'' (CHR ''{'') = 0" "py_rfind ''{not json}'' (CHR ''}'') = 9"
    by (simp_all add: py_find_def py_rfind_def)
  have "fst (lambda_handler
         (scripted ''{not json}''
            (Inl (Raised
              ''Expecting property name enclosed in double quotes: line 1 column 2 (char 1)'')))
         test_event)
     = \<lparr>statusCode = 500,
        body = error_body (scripted ''{not json}''
            (Inl (Raised
              ''Expecting property name enclosed in double quotes: line 1 column 2 (char 1)'')))
          (''Failed to generate recommendations: '' @ exn_str (Raised
              ''Expecting property name enclosed in double quotes: line 1 column 2 (char 1)''))\<rparr>"
    unfolding test_event_def test_alert_def
    by (rule handler_unparseable_reply
        [OF test_event_reaches_agent [unfolded test_alert_def], where reply = "''{not json}''"])
      (simp_all add: braces scripted_def)
  then show ?thesis
    by (simp add: braces py_slice_def error_body_def scripted_def)
qed

subsection \<open>Validation\<close>

lemma agent_calls_logged [simp]: "agent_calls [LogInfo m] = []"
  by simp

text \<open>
  C7, as the code has it. For an event whose action is not the string
  "generateRecommendations" (any other value, or none) the handler returns status 400
  with the error message "Unsupported action: " followed by the action as text (the
  string itself when it is a string), and does not call the agent. For an event with
  that action whose context is absent or is a dictionary without a current alert it
  returns status 400 with an error message, and does not call the agent. The context
  has to be absent or a dictionary: any other context has no current alert in it either,
  and there the handler answers 500, as the theorem after the next shows.
\<close>

theorem handler_rejects_bad_requests:
  "(map_of ev ''action'' \<noteq> Some (JStr ''generateRecommendations'') \<longrightarrow>
      fst (lambda_handler lib (JObj ev)) =
        \<lparr>statusCode = 400,
         body = json_dumps lib (JObj [(''error'',
           JStr (''Unsupported action: '' @ py_str lib (dict_get ev ''action'' JNull)))])\<rparr>
      \<and> agent_calls (snd (lambda_handler lib (JObj ev))) = []
      \<and> (\<forall>s. map_of ev ''action'' = Some (JStr s) \<longrightarrow>
            py_str lib (dict_get ev ''action'' JNull) = s))
   \<and> (map_of ev ''action'' = Some (JStr ''generateRecommendations'')
       \<and> (map_of ev ''context'' = None
            \<or> (\<exists>c. map_of ev ''context'' = Some (JObj c) \<and> map_of c ''currentAlert'' = None)) \<longrightarrow>
      fst (lambda_handler lib (JObj ev)) =
        \<lparr>statusCode = 400,
         body = json_dumps lib (JObj [(''error'', JStr ''Current alert data is required'')])\<rparr>
      \<and> agent_calls (snd (lambda_handler lib (JObj ev))) = [])"
proof (intro conjI impI)
  assume a: "map_of ev ''action'' \<noteq> Some (JStr ''generateRecommendations'')"
  show "fst (lambda_handler lib (JObj ev)) =
        \<lparr>statusCode = 400,
         body = json_dumps lib (JObj [(''error'',
           JStr (''Unsupported action: '' @ py_str lib (dict_get ev ''action'' JNull)))])\<rparr>"
    by (simp add: handler_unsupported_action [OF a] error_body_def)
  show "agent_calls (snd (lambda_handler lib (JObj ev))) = []"
    by (simp add: handler_unsupported_action [OF a])
  show "\<forall>s. map_of ev ''action'' = Some (JStr s) \<longrightarrow>
      py_str lib (dict_get ev ''action'' JNull) = s"
    by (simp add: py_str_def dict_get_def)
next
  assume "map_of ev ''action'' = Some (JStr ''generateRecommendations'')
       \<and> (map_of ev ''context'' = None
            \<or> (\<exists>c. map_of ev ''context'' = Some (JObj c) \<and> map_of c ''currentAlert'' = None))"
  then have a: "map_of ev ''action'' = Some (JStr ''generateRecommendations'')"
    and g: "py_get (dict_get ev ''context'' (JObj [])) ''currentAlert'' (JObj []) = Inr (JObj [])"
    by (auto simp: py_get_def dict_get_def)
  have f: "\<not> truthy (JObj [])" by simp
  show "fst (lambda_handler lib (JObj ev)) =
        \<lparr>statusCode = 400,
         body = json_dumps lib (JObj [(''error'', JStr ''Current alert data is required'')])\<rparr>"
    by (simp add: handler_falsy_alert [OF a g f] error_body_def)
  show "agent_calls (snd (lambda_handler lib (JObj ev))) = []"
    by (simp add: handler_falsy_alert [OF a g f])
qed

text \<open>The event with action "foo", and the event with an empty context.\<close>

theorem handler_rejects_bad_requests_witness:
  "fst (lambda_handler (scripted [] (Inr JNull)) (JObj [(''action'', JStr ''foo'')])) =
     \<lparr>statusCode = 400,
      body = render (JObj [(''error'', JStr ''Unsupported action: foo'')])\<rparr>
   \<and> agent_calls (snd (lambda_handler (scripted [] (Inr JNull)) (JObj [(''action'', JStr ''foo'')])))
       = []
   \<and> fst (lambda_handler (scripted [] (Inr JNull)) (JObj (event_with []))) =
       \<lparr>statusCode = 400,
        body = render (JObj [(''error'', JStr ''Current alert data is required'')])\<rparr>
   \<and> agent_calls (snd (lambda_handler (scripted [] (Inr JNull)) (JObj (event_with [])))) = []"
  using handler_rejects_bad_requests [of "[(''action'', JStr ''foo'')]" "scripted [] (Inr JNull)"]
    handler_rejects_bad_requests [of "event_with []" "scripted [] (Inr JNull)"]
  by (simp add: event_with_def scripted_def dict_get_def py_str_def)

text \<open>
  An event with the supported action and the context \<^verbatim>\<open>null\<close>: line 235 reads \<^verbatim>\<open>None\<close>, line
  236 calls \<^verbatim>\<open>get\<close> on it, and the AttributeError reaches the \<^verbatim>\<open>except\<close>: status 500, not
  400.
\<close>

theorem null_context_is_server_error:
  "map_of [(''action'', JStr ''generateRecommendations''), (''context'', JNull)] ''action''
     = Some (JStr ''generateRecommendations'')
   \<and> fst (lambda_handler (scripted [] (Inr JNull))
          (JObj [(''action'', JStr ''generateRecommendations''), (''context'', JNull)]))
     = \<lparr>statusCode = 500,
        body = render (JObj [(''error'', JStr (''Failed to generate recommendations: ''
          @ [CHR 0x27] @ ''NoneType'' @ [CHR 0x27] @ '' object has no attribute ''
          @ [CHR 0x27] @ ''get'' @ [CHR 0x27]))])\<rparr>"
  by (simp add: lambda_handler_def handler_try_def py_get_def dict_get_def no_get_def
      error_body_def scripted_def Let_def)

text \<open>
  C9. The validation of line 240 tests the truth value of the current alert, not the
  presence of the key: for an event with the supported action whose context holds a
  current alert that is false, as the empty dictionary is, the handler returns the same
  status 400 response as for an event whose context has no current alert, and does not
  call the agent.
\<close>

theorem empty_alert_is_missing_alert:
  assumes "map_of ev ''action'' = Some (JStr ''generateRecommendations'')"
    and "map_of ev ''context'' = Some (JObj c)"
    and "map_of c ''currentAlert'' = Some v"
    and "\<not> truthy v"
  shows "\<not> truthy (JObj [])
    \<and> fst (lambda_handler lib (JObj ev)) =
        \<lparr>statusCode = 400,
         body = json_dumps lib (JObj [(''error'', JStr ''Current alert data is required'')])\<rparr>
    \<and> agent_calls (snd (lambda_handler lib (JObj ev))) = []
    \<and> fst (lambda_handler lib (JObj ev)) = fst (lambda_handler lib (JObj (event_with [])))"
proof -
  have g: "py_get (dict_get ev ''context'' (JObj [])) ''currentAlert'' (JObj []) = Inr v"
    using assms(2,3) by (simp add: py_get_def dict_get_def)
  have a': "map_of (event_with []) ''action'' = Some (JStr ''generateRecommendations'')"
    and g': "py_get (dict_get (event_with []) ''context'' (JObj [])) ''currentAlert'' (JObj [])
      = Inr (JObj [])"
    by (simp_all add: event_with_def py_get_def dict_get_def)
  have f': "\<not> truthy (JObj [])" by simp
  show ?thesis
    by (simp add: handler_falsy_alert [OF assms(1) g assms(4)] handler_falsy_alert [OF a' g' f']
        error_body_def)
qed

text \<open>The test event with the empty dictionary as its current alert.\<close>

theorem empty_alert_is_missing_alert_witness:
  "fst (lambda_handler (scripted [] (Inr JNull))
          (JObj (event_with [(''currentAlert'', JObj []), (''historicalAlerts'', test_history)]))) =
     \<lparr>statusCode = 400,
      body = render (JObj [(''error'', JStr ''Current alert data is required'')])\<rparr>
   \<and> agent_calls (snd (lambda_handler (scripted [] (Inr JNull))
          (JObj (event_with [(''currentAlert'', JObj []), (''historicalAlerts'', test_history)]))))
       = []"
  using empty_alert_is_missing_alert
    [of "event_with [(''currentAlert'', JObj []), (''historicalAlerts'', test_history)]"
        "[(''currentAlert'', JObj []), (''historicalAlerts'', test_history)]"
        "JObj []" "scripted [] (Inr JNull)"]
  by (simp add: event_with_def scripted_def)

subsection \<open>The historical alerts\<close>

text \<open>
  With a context dictionary, the response and the agent call are those of the event
  that holds only the action and the current alert.
\<close>

lemma handler_by_action_and_alert:
  assumes "map_of ev ''context'' = Some (JObj c)"
  shows "fst (lambda_handler lib (JObj ev)) =
      fst (lambda_handler lib
        (JObj [(''action'', dict_get ev ''action'' JNull),
               (''context'', JObj [(''currentAlert'', dict_get c ''currentAlert'' (JObj []))])]))"
    and "agent_calls (snd (lambda_handler lib (JObj ev))) =
      (if dict_get ev ''action'' JNull = JStr ''generateRecommendations''
          \<and> truthy (dict_get c ''currentAlert'' (JObj []))
       then (case build_prompt lib (dict_get c ''currentAlert'' (JObj [])) of
               Inl e \<Rightarrow> [] | Inr p \<Rightarrow> [p])
       else [])"
  using assms
  by (auto simp: lambda_handler_def handler_try_def py_get_def dict_get_def Let_def
      split: option.splits sum.splits)

text \<open>
  C2. Two events that differ only in the historical alerts of their context get the
  same response and the same agent call; the prompt of that call, when there is one, is
  the prompt built from the current alert alone.
\<close>

theorem prompt_ignores_history:
  assumes "\<forall>k. k \<noteq> ''context'' \<longrightarrow> map_of ev k = map_of ev' k"
    and "map_of ev ''context'' = Some (JObj c)"
    and "map_of ev' ''context'' = Some (JObj c')"
    and "\<forall>k. k \<noteq> ''historicalAlerts'' \<longrightarrow> map_of c k = map_of c' k"
  shows "fst (lambda_handler lib (JObj ev)) = fst (lambda_handler lib (JObj ev'))
    \<and> agent_calls (snd (lambda_handler lib (JObj ev)))
        = agent_calls (snd (lambda_handler lib (JObj ev')))
    \<and> agent_calls (snd (lambda_handler lib (JObj ev))) =
        (if dict_get ev ''action'' JNull = JStr ''generateRecommendations''
            \<and> truthy (dict_get c ''currentAlert'' (JObj []))
         then (case build_prompt lib (dict_get c ''currentAlert'' (JObj [])) of
                 Inl e \<Rightarrow> [] | Inr p \<Rightarrow> [p])
         else [])"
proof -
  from assms(1) have "map_of ev ''action'' = map_of ev' ''action''"
    by simp
  then have action: "dict_get ev ''action'' JNull = dict_get ev' ''action'' JNull"
    by (simp add: dict_get_def)
  from assms(4) have "map_of c ''currentAlert'' = map_of c' ''currentAlert''"
    by simp
  then have alert: "dict_get c ''currentAlert'' (JObj []) = dict_get c' ''currentAlert'' (JObj [])"
    by (simp add: dict_get_def)
  show ?thesis
    unfolding handler_by_action_and_alert [OF assms(2)] handler_by_action_and_alert [OF assms(3)]
    by (simp add: action alert)
qed

lemma test_prompt:
  "build_prompt lib test_alert = Inr (prompt_text lib (dict_get
     [(''eventType'', JStr ''weather''),
      (''subType'', JStr ''hurricane''),
      (''severity'', JInt 8),
      (''headline'', JStr ''Hurricane Warning for Coastal Areas''),
      (''description'',
         JStr ''Category 3 hurricane approaching with expected landfall in 24 hours.''),
      (''location'', JObj [(''lat'', JFloat (257617 / 10000)), (''lng'', JFloat (- 801918 / 10000))]),
      (''affectedAreas'',
         JArr [JObj [(''areaId'', JStr ''area-123''), (''areaName'', JStr ''Miami-Dade County''),
                     (''areaType'', JStr ''county'')]])]))"
  by (simp add: build_prompt_def test_alert_def)

text \<open>The test event, with its historical alert and without.\<close>

theorem prompt_ignores_history_witness:
  "fst (lambda_handler (scripted ''{}'' (Inr (JObj []))) test_event)
     = fst (lambda_handler (scripted ''{}'' (Inr (JObj [])))
         (JObj (event_with [(''currentAlert'', test_alert), (''historicalAlerts'', JArr [])])))
   \<and> agent_calls (snd (lambda_handler (scripted ''{}'' (Inr (JObj []))) test_event))
     = agent_calls (snd (lambda_handler (scripted ''{}'' (Inr (JObj [])))
         (JObj (event_with [(''currentAlert'', test_alert), (''historicalAlerts'', JArr [])]))))
   \<and> map Inr (agent_calls (snd (lambda_handler (scripted ''{}'' (Inr (JObj []))) test_event)))
     = [build_prompt (scripted ''{}'' (Inr (JObj []))) test_alert]"
proof -
  let ?with = "[(''currentAlert'', test_alert), (''historicalAlerts'', test_history)]"
  let ?without = "[(''currentAlert'', test_alert), (''historicalAlerts'', JArr [])]"
  have outside: "\<forall>k. k \<noteq> ''context'' \<longrightarrow> map_of (event_with ?with) k = map_of (event_with ?without) k"
    by (simp add: event_with_def)
  have inside: "\<forall>k. k \<noteq> ''historicalAlerts'' \<longrightarrow> map_of ?with k = map_of ?without k"
    by simp
  have c: "map_of (event_with ?with) ''context'' = Some (JObj ?with)"
    and c': "map_of (event_with ?without) ''context'' = Some (JObj ?without)"
    by (simp_all add: event_with_def)
  have alert: "dict_get ?with ''currentAlert'' (JObj []) = test_alert"
    and action: "dict_get (event_with ?with) ''action'' JNull = JStr ''generateRecommendations''"
    by (simp_all add: dict_get_def event_with_def)
  have truthy: "truthy test_alert"
    by (simp add: test_alert_def)
  obtain p where p: "build_prompt (scripted ''{}'' (Inr (JObj []))) test_alert = Inr p"
    using test_prompt by blast
  let ?lib = "scripted ''{}'' (Inr (JObj []))"
  note r = prompt_ignores_history [OF outside c c' inside, of ?lib, unfolded alert action]
  from r have e1: "fst (lambda_handler ?lib (JObj (event_with ?with)))
      = fst (lambda_handler ?lib (JObj (event_with ?without)))"
    and e2: "agent_calls (snd (lambda_handler ?lib (JObj (event_with ?with))))
      = agent_calls (snd (lambda_handler ?lib (JObj (event_with ?without))))"
    by blast+
  from r [THEN conjunct2, THEN conjunct2] truthy p
  have e3: "agent_calls (snd (lambda_handler ?lib (JObj (event_with ?with)))) = [p]"
    by simp
  have e4: "map Inr (agent_calls (snd (lambda_handler ?lib (JObj (event_with ?with)))))
      = [build_prompt ?lib test_alert]"
    unfolding e3 p by simp
  show ?thesis
    unfolding test_event_def using e1 e2 e4 by blast
qed

end
